theory Spec2Isabelle
  imports Main "HOL-Library.Sublist"
begin

section \<open>Go values used by the package\<close>

text \<open>
  A Go \<open>error\<close> is an interface value with one method, \<open>Error() string\<close>. Two kinds of
  error value occur in the code under verification: an opaque error carrying a text
  (\<open>errors.New\<close>, \<open>fmt.Errorf\<close>) and the aggregate \<open>*multierror.Error\<close> of
  \<open>github.com/hashicorp/go-multierror\<close>, which holds the slice \<open>Errors\<close>.
  A nil error is \<open>None\<close> of \<open>error option\<close>.
\<close>

datatype error = errorString string | MultiError "error list"

text \<open>\<open>fmt.Sprintf("%d", n)\<close> for a length: the decimal digits of a natural number.\<close>

fun Sprintf_d :: "nat \<Rightarrow> string" where
  "Sprintf_d n =
     (if n < 10 then [char_of (48 + n)]
      else Sprintf_d (n div 10) @ [char_of (48 + n mod 10)])"

text \<open>\<open>strings.Join(elems, sep)\<close>.\<close>

fun Join :: "string list \<Rightarrow> string \<Rightarrow> string" where
  "Join [] sep = []"
| "Join [x] sep = x"
| "Join (x # y # ys) sep = x @ sep @ Join (y # ys) sep"

text \<open>
  \<open>multierror.ListFormatFunc\<close>, the default \<open>ErrorFormat\<close> of a \<open>*multierror.Error\<close>:
  a header with the number of errors, then one bullet line \<open>"* " + text\<close> per error,
  joined by newlines.
\<close>

definition ListFormatFunc :: "string list \<Rightarrow> string" where
  "ListFormatFunc es =
     Sprintf_d (length es) @ '' error(s) occurred:'' @ [CHR 0x0A, CHR 0x0A]
       @ Join (map (\<lambda>e. ''* '' @ e) es) [CHR 0x0A]"

text \<open>The method \<open>Error()\<close>: the text of an error value.\<close>

fun Error :: "error \<Rightarrow> string" where
  "Error (errorString s) = s"
| "Error (MultiError es) = ListFormatFunc (map Error es)"

text \<open>
  What \<open>multierror.Append\<close> adds for one argument: an argument that is itself a
  \<open>*multierror.Error\<close> is flattened one level, so its elements are added; any other
  error is added as it is.
\<close>

fun Errors_of :: "error \<Rightarrow> error list" where
  "Errors_of (MultiError es) = es"
| "Errors_of (errorString s) = [errorString s]"

text \<open>
  \<open>multierror.Append(err, e)\<close> with one error to add: an aggregate is extended at the
  end, a nil \<open>err\<close> starts a new aggregate, any other \<open>err\<close> becomes the first element
  of a new aggregate; in each case \<open>e\<close> is added flattened.
\<close>

fun multierror_Append :: "error option \<Rightarrow> error \<Rightarrow> error" where
  "multierror_Append None e = MultiError (Errors_of e)"
| "multierror_Append (Some (MultiError es)) e = MultiError (es @ Errors_of e)"
| "multierror_Append (Some (errorString s)) e = MultiError (errorString s # Errors_of e)"

section \<open>github/verifier\_basket.go\<close>

text \<open>
  \<open>type Verifier interface { Verify(lager.Logger, *http.Client) (bool, error) }\<close>.
  A verifier is the function of its two arguments; its result is the pair
  \<open>(verified, err)\<close>.
\<close>

type_synonym ('l, 'c) Verifier = "'l \<Rightarrow> 'c \<Rightarrow> bool \<times> error option"

record ('l, 'c) VerifierBasket =
  verifiers :: "('l, 'c) Verifier list"

definition NewVerifierBasket :: "('l, 'c) Verifier list \<Rightarrow> ('l, 'c) VerifierBasket" where
  "NewVerifierBasket vs = \<lparr>verifiers = vs\<rparr>"

text \<open>
  The \<open>for ... range vb.verifiers\<close> loop of \<open>VerifierBasket.Verify\<close>. The loop state is
  the local variable \<open>errors\<close>; the last argument counts the calls of
  \<open>verifier.Verify\<close> made so far, so that the result tells how many verifiers were
  consulted. A non-nil \<open>err\<close> is appended and the loop continues, whatever
  \<open>verified\<close> is; otherwise \<open>verified\<close> returns \<open>(true, nil)\<close> at once.
\<close>

fun Verify_loop ::
  "('l, 'c) Verifier list \<Rightarrow> 'l \<Rightarrow> 'c \<Rightarrow> error option \<Rightarrow> nat \<Rightarrow> (bool \<times> error option) \<times> nat"
where
  "Verify_loop [] logger client errors calls = ((False, errors), calls)"
| "Verify_loop (verifier # rest) logger client errors calls =
     (case verifier logger client of
        (verified, Some err) \<Rightarrow>
          Verify_loop rest logger client (Some (multierror_Append errors err)) (Suc calls)
      | (verified, None) \<Rightarrow>
          if verified then ((True, None), Suc calls)
          else Verify_loop rest logger client errors (Suc calls))"

text \<open>\<open>VerifierBasket.Verify\<close>: \<open>var errors error\<close> starts as nil.\<close>

definition Verify_calls ::
  "('l, 'c) VerifierBasket \<Rightarrow> 'l \<Rightarrow> 'c \<Rightarrow> (bool \<times> error option) \<times> nat" where
  "Verify_calls vb logger client = Verify_loop (verifiers vb) logger client None 0"

definition VerifierBasket_Verify ::
  "('l, 'c) VerifierBasket \<Rightarrow> 'l \<Rightarrow> 'c \<Rightarrow> bool \<times> error option" where
  "VerifierBasket_Verify vb logger client = fst (Verify_calls vb logger client)"

text \<open>The errors the verifiers of a list return on \<open>(logger, client)\<close>, in order.\<close>

definition returned_errors :: "('l, 'c) Verifier list \<Rightarrow> 'l \<Rightarrow> 'c \<Rightarrow> error list" where
  "returned_errors vs logger client = List.map_filter (\<lambda>v. snd (v logger client)) vs"

text \<open>
  The fake of the tests (\<open>FakeVerifier\<close> with \<open>VerifyReturns\<close>): a verifier that returns
  the same result on every call.
\<close>

definition FakeVerifier :: "bool \<times> error option \<Rightarrow> ('l, 'c) Verifier" where
  "FakeVerifier ret = (\<lambda>logger client. ret)"



section \<open>Interface values, requests and responses\<close>

text \<open>
  A Go \<open>interface{}\<close> value as the package stores it in the request context and as a
  token header carries it: nil, a string, an int or a bool.
\<close>

datatype iface = iNil | iString string | iInt int | iBool bool

text \<open>\<open>fmt.Sprintf("%v", x)\<close> on such a value.\<close>

fun Sprintf_v :: "iface \<Rightarrow> string" where
  "Sprintf_v iNil = ''<nil>''"
| "Sprintf_v (iString s) = s"
| "Sprintf_v (iInt i) = (if i < 0 then ''-'' @ Sprintf_d (nat (- i)) else Sprintf_d (nat i))"
| "Sprintf_v (iBool b) = (if b then ''true'' else ''false'')"

text \<open>
  Modelled from the spec: the keys of the request-scoped context, which are declared in
  a file of the package that is not among the sources; section 3 names the fields
  \<open>authenticated\<close>, \<open>teamName\<close>, \<open>teamID\<close> and \<open>isAdmin\<close>.
\<close>

datatype ctxkey = authenticated | teamNameKey | teamIDKey | isAdminKey

text \<open>A point in time and a duration, both in nanoseconds as in package \<open>time\<close>.\<close>

type_synonym Time = int
type_synonym Duration = int

definition Hour :: Duration where
  "Hour = 3600 * 1000000000"

definition Unix :: "Time \<Rightarrow> int" where
  "Unix t = t div 1000000000"

record Cookie =
  Name :: string
  Value :: string
  Path :: string
  Expires :: Time

text \<open>
  The part of \<open>*http.Request\<close> the handlers read: the parsed form values
  (\<open>url.Values\<close>, a map to string slices), the cookies sent with the request as
  name/value pairs, the body, and the gorilla context attached to the request.
\<close>

record Request =
  Form :: "string \<rightharpoonup> string list"
  Cookies :: "(string \<times> string) list"
  Body :: string
  Context :: "ctxkey \<rightharpoonup> iface"

text \<open>\<open>r.FormValue(key)\<close>: the first value of the key, the empty string without one.\<close>

definition FormValue :: "Request \<Rightarrow> string \<Rightarrow> string" where
  "FormValue r key = (case Form r key of Some (v # vs) \<Rightarrow> v | _ \<Rightarrow> [])"

text \<open>\<open>r.Cookie(name)\<close>: the first cookie of that name, \<open>ErrNoCookie\<close> without one.\<close>

definition Request_Cookie :: "Request \<Rightarrow> string \<Rightarrow> error + string" where
  "Request_Cookie r name =
     (case map_of (Cookies r) name of
        None \<Rightarrow> Inl (errorString ''http: named cookie not present'')
      | Some v \<Rightarrow> Inr v)"

text \<open>\<open>context.GetOk(r, key)\<close> of gorilla/context: the stored value and whether there is one.\<close>

definition context_GetOk :: "Request \<Rightarrow> ctxkey \<Rightarrow> iface \<times> bool" where
  "context_GetOk r key = (case Context r key of None \<Rightarrow> (iNil, False) | Some v \<Rightarrow> (v, True))"

text \<open>
  What a handler has done to its \<open>http.ResponseWriter\<close>: the status code written
  (\<open>None\<close> before any), the cookies set, the \<open>Location\<close> header and the body written.
\<close>

record ResponseWriter =
  Code :: "nat option"
  SetCookies :: "Cookie list"
  Location :: "string option"
  Written :: string

definition NewRecorder :: ResponseWriter where
  "NewRecorder = \<lparr>Code = None, SetCookies = [], Location = None, Written = []\<rparr>"

definition StatusOK :: nat where "StatusOK = 200"
definition StatusTemporaryRedirect :: nat where "StatusTemporaryRedirect = 307"
definition StatusUnauthorized :: nat where "StatusUnauthorized = 401"
definition StatusForbidden :: nat where "StatusForbidden = 403"
definition StatusNotFound :: nat where "StatusNotFound = 404"
definition StatusInternalServerError :: nat where "StatusInternalServerError = 500"

text \<open>\<open>w.WriteHeader(code)\<close>: the first status written stands.\<close>

definition WriteHeader :: "nat \<Rightarrow> ResponseWriter \<Rightarrow> ResponseWriter" where
  "WriteHeader code w = (if Code w = None then w\<lparr>Code := Some code\<rparr> else w)"

text \<open>\<open>w.Write(s)\<close>: writes status 200 first when none was written.\<close>

definition Write :: "string \<Rightarrow> ResponseWriter \<Rightarrow> ResponseWriter" where
  "Write s w = (let w' = WriteHeader StatusOK w in w'\<lparr>Written := Written w' @ s\<rparr>)"

text \<open>
  \<open>http.SetCookie(w, cookie)\<close>: one more \<open>Set-Cookie\<close> header, with the value as
  given. (The library drops bytes that are not valid in a cookie value; the values the
  handlers set are made of letters, digits, \<open>-\<close>, \<open>_\<close>, \<open>.\<close> and the space of
  \<open>Bearer\<close>, which all pass.)
\<close>

definition http_SetCookie :: "Cookie \<Rightarrow> ResponseWriter \<Rightarrow> ResponseWriter" where
  "http_SetCookie c w = w\<lparr>SetCookies := SetCookies w @ [c]\<rparr>"

text \<open>
  \<open>http.Redirect(w, r, url, code)\<close>: the \<open>Location\<close> header and the status. (The short
  HTML note the library adds to the body of a GET response is left out.)
\<close>

definition http_Redirect :: "string \<Rightarrow> nat \<Rightarrow> ResponseWriter \<Rightarrow> ResponseWriter" where
  "http_Redirect url code w = WriteHeader code (w\<lparr>Location := Some url\<rparr>)"

text \<open>\<open>http.Error(w, msg, code)\<close>: the status, then the message and a newline.\<close>

definition http_Error :: "string \<Rightarrow> nat \<Rightarrow> ResponseWriter \<Rightarrow> ResponseWriter" where
  "http_Error msg code w = Write (msg @ [CHR 0x0A]) (WriteHeader code w)"

section \<open>GetTeam (unnamed/part\_000)\<close>

text \<open>
  A failed type assertion \<open>x.(T)\<close> without the comma-ok form panics; the panic is a
  value of the model.
\<close>

datatype panic = TypeAssertionPanic

text \<open>
  \<open>GetTeam\<close>: the three keys are read with \<open>context.GetOk\<close>; unless all three are
  present the zero values and \<open>false\<close> are returned; otherwise the three values are
  asserted to be a string, an int and a bool. (The team id is only passed on, never
  computed with, so Go's \<open>int\<close> is \<open>int\<close> here.)
\<close>

definition GetTeam :: "Request \<Rightarrow> panic + (string \<times> int \<times> bool \<times> bool)" where
  "GetTeam r =
     (let (teamName, namePresent) = context_GetOk r teamNameKey;
          (teamID, idPresent) = context_GetOk r teamIDKey;
          (isAdmin, adminPresent) = context_GetOk r isAdminKey
      in if \<not> (namePresent \<and> idPresent \<and> adminPresent) then Inr ([], 0, False, False)
         else (case (teamName, teamID, isAdmin) of
                 (iString n, iInt i, iBool a) \<Rightarrow> Inr (n, i, a, True)
               | _ \<Rightarrow> Inl TypeAssertionPanic))"

section \<open>keyFunc (oauth\_handler.go)\<close>

text \<open>
  The implementations of the interface \<open>jwt.SigningMethod\<close> in jwt-go, each with its
  algorithm name: \<open>*SigningMethodRSA\<close> (RS256, RS384, RS512), \<open>*SigningMethodHMAC\<close>,
  \<open>*SigningMethodECDSA\<close>, \<open>*SigningMethodRSAPSS\<close>, and any other implementation.
\<close>

datatype SigningMethod =
    SigningMethodRSA string
  | SigningMethodHMAC string
  | SigningMethodECDSA string
  | SigningMethodRSAPSS string
  | SigningMethodOther string

fun Alg :: "SigningMethod \<Rightarrow> string" where
  "Alg (SigningMethodRSA n) = n"
| "Alg (SigningMethodHMAC n) = n"
| "Alg (SigningMethodECDSA n) = n"
| "Alg (SigningMethodRSAPSS n) = n"
| "Alg (SigningMethodOther n) = n"

text \<open>\<open>var SigningMethod = jwt.SigningMethodRS256\<close>.\<close>

definition SigningMethodRS256 :: SigningMethod where
  "SigningMethodRS256 = SigningMethodRSA ''RS256''"

definition auth_SigningMethod :: SigningMethod where
  "auth_SigningMethod = SigningMethodRS256"

text \<open>\<open>rsa.PublicKey\<close> (modulus and exponent) and \<open>rsa.PrivateKey\<close> (the public key and the private exponent).\<close>

datatype rsa_PublicKey = PublicKey int int
datatype rsa_PrivateKey = PrivateKey rsa_PublicKey int

fun Public :: "rsa_PrivateKey \<Rightarrow> rsa_PublicKey" where
  "Public (PrivateKey pub d) = pub"

record Token =
  Method :: SigningMethod
  Header :: "string \<rightharpoonup> iface"
  Claims :: "string \<rightharpoonup> iface"
  Valid :: bool

text \<open>\<open>token.Header["alg"]\<close>: the nil interface value when the key is missing.\<close>

definition Header_alg :: "Token \<Rightarrow> iface" where
  "Header_alg token = (case Header token ''alg'' of None \<Rightarrow> iNil | Some v \<Rightarrow> v)"

text \<open>
  \<open>keyFunc(key)\<close>: the function handed to \<open>jwt.Parse\<close>. The type assertion
  \<open>token.Method.(*jwt.SigningMethodRSA)\<close> holds for a method of that very type only.
\<close>

definition keyFunc :: "rsa_PrivateKey \<Rightarrow> Token \<Rightarrow> error + rsa_PublicKey" where
  "keyFunc key token =
     (case Method token of
        SigningMethodRSA n \<Rightarrow> Inr (Public key)
      | _ \<Rightarrow> Inl (errorString (''Unexpected signing method: '' @ Sprintf_v (Header_alg token))))"

text \<open>
  The step of \<open>jwt.Parse\<close> (jwt-go, outside the repository) that uses the key function:
  the token parsed from the text is not yet valid; when the key function returns an
  error, \<open>Parse\<close> returns the token with a validation error; only with a key do the
  library's remaining checks (expiry, signature), here the parameter \<open>check\<close>, decide.
\<close>

definition jwt_Parse_lookup ::
  "(Token \<Rightarrow> error + 'k) \<Rightarrow> (Token \<Rightarrow> 'k \<Rightarrow> Token \<times> error option) \<Rightarrow> Token \<Rightarrow> Token \<times> error option"
where
  "jwt_Parse_lookup kf check token =
     (case kf (token\<lparr>Valid := False\<rparr>) of
        Inl err \<Rightarrow> (token\<lparr>Valid := False\<rparr>, Some (errorString (Error err)))
      | Inr key \<Rightarrow> check (token\<lparr>Valid := False\<rparr>) key)"

section \<open>OAuthBeginHandler (oauth\_begin\_handler.go)\<close>

text \<open>\<open>const OAuthStateCookie\<close> and \<open>type OAuthState struct\<close>.\<close>

definition OAuthStateCookie :: string where
  "OAuthStateCookie = ''_concourse_oauth_state''"

record OAuthState =
  Redirect :: string

text \<open>
  Modelled from the spec: \<open>CookieAge\<close>, declared in a file of the package that is not
  among the sources; section 3 gives the cookie age as 24 hours.
\<close>

definition CookieAge :: Duration where
  "CookieAge = 24 * Hour"

text \<open>
  \<open>provider.Provider\<close>: the interface of \<open>provider/provider.go\<close> as a record of its
  methods. The \<open>context.Context\<close> arguments of \<open>Exchange\<close> and \<open>Client\<close> are left
  out; \<open>'t\<close> stands for \<open>*oauth2.Token\<close> and \<open>'c\<close> for \<open>*http.Client\<close>.
\<close>

record ('l, 't, 'c) Provider =
  DisplayName :: string
  AuthCodeURL :: "string \<Rightarrow> string"
  Exchange :: "string \<Rightarrow> error + 't"
  Client :: "'t \<Rightarrow> 'c"
  Verify :: "('l, 'c) Verifier"

text \<open>\<open>type OAuthBeginHandler struct\<close>; \<open>provider.Providers\<close> is a map from names.\<close>

record ('l, 't, 'c) OAuthBeginHandler =
  logger :: 'l
  providers :: "string \<rightharpoonup> ('l, 't, 'c) Provider"
  privateKey :: rsa_PrivateKey

text \<open>
  What the handler takes from outside the repository: the clock (\<open>time.Now()\<close>) and
  \<open>json.Marshal\<close> on an \<open>OAuthState\<close>, which returns the bytes or an error.
\<close>

record Env =
  time_Now :: Time
  json_Marshal :: "OAuthState \<Rightarrow> error + string"

text \<open>
  \<open>base64.RawURLEncoding.EncodeToString\<close>: three bytes give four characters of the
  URL-safe alphabet, a rest of one or two bytes gives two or three, and there is no
  padding.
\<close>

definition encodeURL :: string where
  "encodeURL = ''ABCDEFGHIJKLMNOPQRSTUVWXYZabcdefghijklmnopqrstuvwxyz0123456789-_''"

definition encode6 :: "nat \<Rightarrow> char" where
  "encode6 v = encodeURL ! (v mod 64)"

fun RawURLEncoding_EncodeToString :: "string \<Rightarrow> string" where
  "RawURLEncoding_EncodeToString [] = []"
| "RawURLEncoding_EncodeToString [a] =
     (let val = of_char a * 65536
      in [encode6 (val div 262144), encode6 (val div 4096)])"
| "RawURLEncoding_EncodeToString [a, b] =
     (let val = of_char a * 65536 + of_char b * 256
      in [encode6 (val div 262144), encode6 (val div 4096), encode6 (val div 64)])"
| "RawURLEncoding_EncodeToString (a # b # c # rest) =
     (let val = of_char a * 65536 + of_char b * 256 + of_char c
      in [encode6 (val div 262144), encode6 (val div 4096), encode6 (val div 64), encode6 val]
         @ RawURLEncoding_EncodeToString rest)"

text \<open>
  \<open>OAuthBeginHandler.ServeHTTP\<close>. An unknown provider gives 404 and a failed
  \<open>json.Marshal\<close> gives 500, both before any cookie is set; otherwise the encoded
  state goes to the provider's \<open>AuthCodeURL\<close> and into the state cookie, and the
  response redirects to the URL. (The log entries are left out.)
\<close>

definition OAuthBeginHandler_ServeHTTP ::
  "'e Env_scheme \<Rightarrow> ('l, 't, 'c, 'h) OAuthBeginHandler_scheme \<Rightarrow> ResponseWriter \<Rightarrow> Request
     \<Rightarrow> ResponseWriter"
where
  "OAuthBeginHandler_ServeHTTP env handler w r =
     (let providerName = FormValue r '':provider'' in
      case providers handler providerName of
        None \<Rightarrow> WriteHeader StatusNotFound w
      | Some provider \<Rightarrow>
          (case json_Marshal env \<lparr>Redirect = FormValue r ''redirect''\<rparr> of
             Inl err \<Rightarrow> WriteHeader StatusInternalServerError w
           | Inr oauthState \<Rightarrow>
               let encodedState = RawURLEncoding_EncodeToString oauthState;
                   authCodeURL = AuthCodeURL provider encodedState
               in http_Redirect authCodeURL StatusTemporaryRedirect
                    (http_SetCookie
                       \<lparr>Name = OAuthStateCookie, Value = encodedState, Path = ''/'',
                        Expires = time_Now env + CookieAge\<rparr> w)))"

section \<open>The authorization middleware\<close>

type_synonym Handler = "ResponseWriter \<Rightarrow> Request \<Rightarrow> ResponseWriter"

text \<open>
  Modelled from the spec: \<open>IsAuthenticated\<close>, whose file is not among the sources
  (only its callers are, in the tests). By sections 3 and 4.6 it reads the flag
  \<open>authenticated\<close> that the propagation stage stored in the request-scoped context;
  a request without the flag is not authenticated.
\<close>

definition IsAuthenticated :: "Request \<Rightarrow> bool" where
  "IsAuthenticated r = (case Context r authenticated of Some (iBool b) \<Rightarrow> b | _ \<Rightarrow> False)"

text \<open>
  Modelled from the spec: the rejection callback (\<open>Rejector\<close>), an interface declared
  in a file that is not among the sources; section 4.7 and the test use its two
  methods.
\<close>

record Rejector =
  Unauthorized :: Handler
  Forbidden :: Handler

text \<open>
  Modelled from the spec: the service's default team name (\<open>atc.DefaultTeamName\<close>),
  declared outside the sources; the test of the middleware names it \<open>main\<close>.
\<close>

definition DefaultTeamName :: string where
  "DefaultTeamName = ''main''"

text \<open>
  Modelled from the spec: \<open>CheckAuthorizationHandler\<close>, whose file is not among the
  sources (only its test is). Section 4.7, in its order: an unauthenticated request is
  rejected with the callback \<open>Unauthorized\<close>; else a request without a team claim
  (\<open>found == false\<close>) for the default team is allowed; else a request whose claimed
  team is the requested team is allowed; every other request is rejected with the
  callback \<open>Forbidden\<close>. The team claim is read with \<open>GetTeam\<close> and the requested
  team is the form value \<open>:team_name\<close>.
\<close>

definition CheckAuthorizationHandler ::
  "Handler \<Rightarrow> Rejector \<Rightarrow> ResponseWriter \<Rightarrow> Request \<Rightarrow> panic + ResponseWriter" where
  "CheckAuthorizationHandler handler rejector w r =
     (if \<not> IsAuthenticated r then Inr (Unauthorized rejector w r)
      else (case GetTeam r of
              Inl p \<Rightarrow> Inl p
            | Inr (teamName, teamID, isAdmin, found) \<Rightarrow>
                if \<not> found \<and> FormValue r '':team_name'' = DefaultTeamName then Inr (handler w r)
                else if teamName = FormValue r '':team_name'' then Inr (handler w r)
                else Inr (Forbidden rejector w r)))"

text \<open>
  The collaborators of \<open>check_authorization_handler_test.go\<close>: \<open>simpleHandler\<close> copies
  \<open>"simple "\<close> and then the request body to the response; the fake rejector answers
  with \<open>http.Error(w, "nope", code)\<close>.
\<close>

definition simpleHandler :: Handler where
  "simpleHandler w r = Write (Body r) (Write ''simple '' w)"

definition fakeRejector :: Rejector where
  "fakeRejector =
     \<lparr>Unauthorized = (\<lambda>w r. http_Error ''nope'' StatusUnauthorized w),
      Forbidden = (\<lambda>w r. http_Error ''nope'' StatusForbidden w)\<rparr>"

section \<open>The OAuth callback handler\<close>

text \<open>
  Modelled from the spec: the name of the session cookie (\<open>CookieName\<close>), declared in a
  file that is not among the sources; sections 3 and 6 give \<open>ATC-Authorization\<close>.
\<close>

definition CookieName :: string where
  "CookieName = ''ATC-Authorization''"

text \<open>
  Modelled from the spec: the team of the session claims (section 3: team name, team
  id, admin flag), which section 4.5 takes from the resolution context of the handler.
\<close>

record Team =
  team_name :: string
  team_id :: int
  team_admin :: bool

record ('l, 't, 'c) OAuthCallbackHandler = "('l, 't, 'c) OAuthBeginHandler" +
  team :: Team

text \<open>
  What the callback handler takes from outside the repository, beside the clock:
  \<open>base64.RawURLEncoding.DecodeString\<close>, \<open>json.Unmarshal\<close> into an \<open>OAuthState\<close>,
  and of jwt-go the encoding of a token's header and claims (\<open>SigningString\<close>) and the
  signature of a text under a signing method and a private key.
\<close>

record EnvCallback = Env +
  DecodeString :: "string \<Rightarrow> error + string"
  json_Unmarshal :: "string \<Rightarrow> error + OAuthState"
  SigningString :: "Token \<Rightarrow> string"
  method_Sign :: "SigningMethod \<Rightarrow> string \<Rightarrow> rsa_PrivateKey \<Rightarrow> string"

text \<open>\<open>jwt.New(method)\<close>: a token with the header of the method and no claims.\<close>

definition jwt_New :: "SigningMethod \<Rightarrow> Token" where
  "jwt_New method =
     \<lparr>Method = method,
      Header = [''typ'' \<mapsto> iString ''JWT'', ''alg'' \<mapsto> iString (Alg method)],
      Claims = Map.empty, Valid = False\<rparr>"

text \<open>
  Modelled from the spec: the token of the session claims (section 3) with the expiry
  claim \<open>exp\<close> as a Unix timestamp, under the signing method of the package.
\<close>

definition SessionToken :: "Team \<Rightarrow> Time \<Rightarrow> Token" where
  "SessionToken t expiry =
     (jwt_New auth_SigningMethod)
       \<lparr>Claims := [''exp'' \<mapsto> iInt (Unix expiry), ''teamName'' \<mapsto> iString (team_name t),
                   ''teamID'' \<mapsto> iInt (team_id t), ''isAdmin'' \<mapsto> iBool (team_admin t)]\<rparr>"

text \<open>
  Modelled from the spec: \<open>Sign\<close> of section 4.1, a function of the claims, the expiry
  and the key: the compact token text is the signing string, a dot, and the signature
  of the signing string.
\<close>

definition Sign :: "'e EnvCallback_scheme \<Rightarrow> rsa_PrivateKey \<Rightarrow> Team \<Rightarrow> Time \<Rightarrow> string" where
  "Sign env key t expiry =
     (let token = SessionToken t expiry; sstr = SigningString env token
      in sstr @ ''.'' @ method_Sign env (Method token) sstr key)"

text \<open>The calls a handler makes on its provider, as the fakes of the tests record them.\<close>

datatype ('t, 'c) provider_call = ExchangeCall string | ClientCall 't | VerifyCall 'c

text \<open>The \<open>state\<close> query parameter: its first value, if the parameter is present.\<close>

definition state_param :: "Request \<Rightarrow> string option" where
  "state_param r = (case Form r ''state'' of Some (v # vs) \<Rightarrow> Some v | _ \<Rightarrow> None)"

text \<open>
  Modelled from the spec: steps 7 to 9 of section 4.5, after a successful \<open>Verify\<close>:
  the expiry is now plus the cookie age; the signed token goes into the session cookie
  as \<open>"Bearer " + token\<close>, expiring at the expiry; a non-empty redirect path of the
  state is redirected to, otherwise the token string is written to the body. The test
  of the handler (\<open>responds with the token\<close>) fixes the body as the value of the
  cookie followed by a newline.
\<close>

definition callback_issue ::
  "'e EnvCallback_scheme \<Rightarrow> ('l, 't, 'c, 'h) OAuthCallbackHandler_scheme \<Rightarrow> OAuthState
     \<Rightarrow> ResponseWriter \<Rightarrow> ResponseWriter"
where
  "callback_issue env handler oauthState w =
     (let exp = time_Now env + CookieAge;
          tokenStr = ''Bearer '' @ Sign env (privateKey handler) (team handler) exp;
          w' = http_SetCookie \<lparr>Name = CookieName, Value = tokenStr, Path = ''/'', Expires = exp\<rparr> w
      in if Redirect oauthState \<noteq> [] then http_Redirect (Redirect oauthState) StatusTemporaryRedirect w'
         else Write (tokenStr @ [CHR 0x0A]) w')"

text \<open>
  Modelled from the spec: steps 4 to 6 of section 4.5: the code is exchanged (a failure
  gives 500), the client is made from the credential, and the provider's \<open>Verify\<close>
  decides: an error gives 500, \<open>(false, nil)\<close> gives 401, \<open>(true, nil)\<close> proceeds.
\<close>

definition callback_exchange ::
  "'e EnvCallback_scheme \<Rightarrow> ('l, 't, 'c, 'h) OAuthCallbackHandler_scheme \<Rightarrow> ('l, 't, 'c) Provider
     \<Rightarrow> OAuthState \<Rightarrow> ResponseWriter \<Rightarrow> Request \<Rightarrow> ResponseWriter \<times> ('t, 'c) provider_call list"
where
  "callback_exchange env handler provider oauthState w r =
     (let code = FormValue r ''code'' in
      case Exchange provider code of
        Inl err \<Rightarrow> (WriteHeader StatusInternalServerError w, [ExchangeCall code])
      | Inr token \<Rightarrow>
          let httpClient = Client provider token;
              calls = [ExchangeCall code, ClientCall token, VerifyCall httpClient]
          in (case Verify provider (logger handler) httpClient of
                (verified, Some err) \<Rightarrow> (WriteHeader StatusInternalServerError w, calls)
              | (verified, None) \<Rightarrow>
                  if \<not> verified then (WriteHeader StatusUnauthorized w, calls)
                  else (callback_issue env handler oauthState w, calls)))"

text \<open>
  Modelled from the spec: \<open>OAuthCallbackHandler.ServeHTTP\<close>, whose file is not among
  the sources (only its test is). Steps 1 to 3 of section 4.5: an unknown provider
  gives 404; a missing \<open>state\<close> parameter, a missing state cookie, or two values that
  differ give 401; so does a state that does not decode or parse. The result is the
  response together with the calls made on the provider.
\<close>

definition OAuthCallbackHandler_ServeHTTP ::
  "'e EnvCallback_scheme \<Rightarrow> ('l, 't, 'c, 'h) OAuthCallbackHandler_scheme \<Rightarrow> ResponseWriter \<Rightarrow> Request
     \<Rightarrow> ResponseWriter \<times> ('t, 'c) provider_call list"
where
  "OAuthCallbackHandler_ServeHTTP env handler w r =
     (case providers handler (FormValue r '':provider'') of
        None \<Rightarrow> (WriteHeader StatusNotFound w, [])
      | Some provider \<Rightarrow>
          (case (state_param r, Request_Cookie r OAuthStateCookie) of
             (Some paramState, Inr cookieState) \<Rightarrow>
               if paramState \<noteq> cookieState then (WriteHeader StatusUnauthorized w, [])
               else (case DecodeString env paramState of
                       Inl err \<Rightarrow> (WriteHeader StatusUnauthorized w, [])
                     | Inr stateJSON \<Rightarrow>
                         (case json_Unmarshal env stateJSON of
                            Inl err \<Rightarrow> (WriteHeader StatusUnauthorized w, [])
                          | Inr oauthState \<Rightarrow>
                              callback_exchange env handler provider oauthState w r))
           | _ \<Rightarrow> (WriteHeader StatusUnauthorized w, [])))"

section \<open>Fixtures of the tests\<close>

text \<open>Two requests as \<open>wrap_handler_test.go\<close> makes them: with and without a full team context.\<close>

definition request_with_team :: Request where
  "request_with_team =
     \<lparr>Form = Map.empty, Cookies = [], Body = ''hello'',
      Context = [authenticated \<mapsto> iBool True, teamNameKey \<mapsto> iString ''some-team'',
                 teamIDKey \<mapsto> iInt 9, isAdminKey \<mapsto> iBool True]\<rparr>"

definition request_partial_team :: Request where
  "request_partial_team =
     \<lparr>Form = Map.empty, Cookies = [], Body = ''hello'',
      Context = [authenticated \<mapsto> iBool True, teamNameKey \<mapsto> iString ''some-team'',
                 teamIDKey \<mapsto> iInt 9]\<rparr>"

text \<open>
  The requests of \<open>check_authorization_handler_test.go\<close>: a request for a team, with
  body \<open>hello\<close>, whose context carries the authenticated flag and the team claim of
  the bearer token, if one was found.
\<close>

definition team_request :: "string \<Rightarrow> bool \<Rightarrow> (string \<times> int \<times> bool) option \<Rightarrow> Request" where
  "team_request requested authed claim =
     \<lparr>Form = ['':team_name'' \<mapsto> [requested]], Cookies = [], Body = ''hello'',
      Context = (case claim of
                   None \<Rightarrow> [authenticated \<mapsto> iBool authed]
                 | Some (n, i, a) \<Rightarrow>
                     [authenticated \<mapsto> iBool authed, teamNameKey \<mapsto> iString n,
                      teamIDKey \<mapsto> iInt i, isAdminKey \<mapsto> iBool a])\<rparr>"

text \<open>A token signed with a symmetric algorithm, and a signing key.\<close>

definition hs256_token :: Token where
  "hs256_token =
     \<lparr>Method = SigningMethodHMAC ''HS256'',
      Header = [''typ'' \<mapsto> iString ''JWT'', ''alg'' \<mapsto> iString ''HS256''],
      Claims = [''exp'' \<mapsto> iInt 4102444800], Valid = False\<rparr>"

definition signingKey :: rsa_PrivateKey where
  "signingKey = PrivateKey (PublicKey 3233 17) 2753"

text \<open>
  The fake provider \<open>b\<close> of the handler tests: the exchange returns a fixed token, the
  client is made of the token, and \<open>Verify\<close> returns what the test sets.
\<close>

definition fakeProviderB :: "bool \<times> error option \<Rightarrow> (unit, string, string) Provider" where
  "fakeProviderB verifyReturns =
     \<lparr>DisplayName = ''B'',
      AuthCodeURL = (\<lambda>state. ''https://b.example.com/authorize?state='' @ state),
      Exchange = (\<lambda>code. Inr ''some-access-token''),
      Client = (\<lambda>token. ''client of '' @ token),
      Verify = FakeVerifier verifyReturns\<rparr>"

definition testTeam :: Team where
  "testTeam = \<lparr>team_name = ''main'', team_id = 1, team_admin = True\<rparr>"

definition testHandler :: "bool \<times> error option \<Rightarrow> (unit, string, string) OAuthCallbackHandler" where
  "testHandler verifyReturns =
     \<lparr>logger = (), providers = [''b'' \<mapsto> fakeProviderB verifyReturns],
      privateKey = signingKey, team = testTeam\<rparr>"

text \<open>
  An environment for the fixtures: the clock stands at 1000 seconds; the JSON and
  base64 functions are those of the library on the two states the tests use (an empty
  redirect and the redirect \<open>/\<close>); signing string and signature are fixed texts.
\<close>

definition test_Marshal :: "OAuthState \<Rightarrow> error + string" where
  "test_Marshal st = Inr (''{\"redirect\":\"'' @ Redirect st @ ''\"}'')"

definition test_DecodeString :: "string \<Rightarrow> error + string" where
  "test_DecodeString s =
     (if s = ''eyJyZWRpcmVjdCI6IiJ9'' then Inr ''{\"redirect\":\"\"}''
      else if s = ''eyJyZWRpcmVjdCI6Ii8ifQ'' then Inr ''{\"redirect\":\"/\"}''
      else Inl (errorString ''illegal base64 data''))"

definition test_Unmarshal :: "string \<Rightarrow> error + OAuthState" where
  "test_Unmarshal s =
     (if s = ''{\"redirect\":\"\"}'' then Inr \<lparr>Redirect = []\<rparr>
      else if s = ''{\"redirect\":\"/\"}'' then Inr \<lparr>Redirect = ''/''\<rparr>
      else Inl (errorString ''invalid character''))"

definition testEnv :: EnvCallback where
  "testEnv =
     \<lparr>time_Now = 1000 * 1000000000, json_Marshal = test_Marshal,
      DecodeString = test_DecodeString, json_Unmarshal = test_Unmarshal,
      SigningString = (\<lambda>token. ''header.claims''),
      method_Sign = (\<lambda>method sstr key. ''signature'')\<rparr>"

text \<open>The begin request of the tests and the callback requests, by state parameter and state cookie.\<close>

definition begin_request :: Request where
  "begin_request =
     \<lparr>Form = ['':provider'' \<mapsto> [''b''], ''redirect'' \<mapsto> [''/'']], Cookies = [], Body = [],
      Context = Map.empty\<rparr>"

definition callback_request :: "string option \<Rightarrow> string option \<Rightarrow> Request" where
  "callback_request state cookie =
     \<lparr>Form = (case state of
                None \<Rightarrow> ['':provider'' \<mapsto> [''b''], ''code'' \<mapsto> [''some-code'']]
              | Some s \<Rightarrow> ['':provider'' \<mapsto> [''b''], ''code'' \<mapsto> [''some-code''], ''state'' \<mapsto> [s]]),
      Cookies = (case cookie of None \<Rightarrow> [] | Some c \<Rightarrow> [(OAuthStateCookie, c)]),
      Body = [], Context = Map.empty\<rparr>"

text \<open>\<open>ExchangeCallCount()\<close> of the fake provider.\<close>

definition ExchangeCallCount :: "('t, 'c) provider_call list \<Rightarrow> nat" where
  "ExchangeCallCount calls = length (filter (\<lambda>c. case c of ExchangeCall code \<Rightarrow> True | _ \<Rightarrow> False) calls)"

section \<open>Auxiliary facts\<close>

declare Sprintf_d.simps [simp del]

lemmas status_defs = StatusOK_def StatusTemporaryRedirect_def StatusUnauthorized_def
  StatusForbidden_def StatusNotFound_def StatusInternalServerError_def

lemmas writer_defs = NewRecorder_def WriteHeader_def Write_def http_SetCookie_def
  http_Redirect_def http_Error_def




lemma Error_MultiError_two:
  "Error (MultiError [errorString ''first error'', errorString ''second error'']) =
     ''2 error(s) occurred:'' @ [CHR 0x0A, CHR 0x0A] @ ''* first error'' @ [CHR 0x0A]
       @ ''* second error''"
  by code_simp

lemma Sprintf_v_negative: "Sprintf_v (iInt (- 45)) = ''-45''"
  by code_simp








lemma returned_errors_Nil [simp]: "returned_errors [] l c = []"
  by (simp add: returned_errors_def)



lemma Verify_loop_first_success:
  "\<forall>u\<in>set pre. u l c \<noteq> (True, None) \<Longrightarrow> v l c = (True, None) \<Longrightarrow>
   Verify_loop (pre @ v # post) l c errs n = ((True, None), Suc (n + length pre))"
proof (induction pre arbitrary: errs n)
  case Nil
  then show ?case by simp
next
  case (Cons u pre)
  then have rest: "\<forall>u\<in>set pre. u l c \<noteq> (True, None)" and hd: "u l c \<noteq> (True, None)" by simp_all
  obtain verified err where r: "u l c = (verified, err)" by (cases "u l c")
  show ?case
  proof (cases err)
    case None
    with r hd have "\<not> verified" by auto
    with r None Cons.IH[OF rest Cons.prems(2)] show ?thesis by simp
  next
    case (Some e)
    with r Cons.IH[OF rest Cons.prems(2)] show ?thesis by simp
  qed
qed

lemma encode6_in_alphabet: "encode6 v \<in> set encodeURL"
proof -
  have "length encodeURL = 64" by (simp add: encodeURL_def)
  then have "v mod 64 < length encodeURL" by simp
  then show ?thesis unfolding encode6_def by (rule nth_mem)
qed

lemma EncodeToString_alphabet:
  "set (RawURLEncoding_EncodeToString s) \<subseteq> set encodeURL"
  by (induction s rule: RawURLEncoding_EncodeToString.induct)
    (simp_all add: Let_def encode6_in_alphabet)

lemma callback_state_accepted:
  assumes "providers handler (FormValue r '':provider'') = Some provider"
    and "state_param r = Some state"
    and "Request_Cookie r OAuthStateCookie = Inr state"
    and "DecodeString env state = Inr stateJSON"
    and "json_Unmarshal env stateJSON = Inr oauthState"
  shows "OAuthCallbackHandler_ServeHTTP env handler w r =
           callback_exchange env handler provider oauthState w r"
  using assms by (simp add: OAuthCallbackHandler_ServeHTTP_def)

lemma callback_exchange_verified:
  assumes "Exchange provider (FormValue r ''code'') = Inr token"
    and "Verify provider (logger handler) (Client provider token) = (True, None)"
  shows "fst (callback_exchange env handler provider oauthState w r) =
           callback_issue env handler oauthState w"
  using assms by (simp add: callback_exchange_def Let_def)

lemma callback_exchange_not_verified:
  assumes "Exchange provider (FormValue r ''code'') = Inr token"
    and "Verify provider (logger handler) (Client provider token) = (False, err)"
  shows "fst (callback_exchange env handler provider oauthState w r) =
           WriteHeader (case err of None \<Rightarrow> StatusUnauthorized | Some e \<Rightarrow> StatusInternalServerError) w"
  using assms by (cases err) (simp_all add: callback_exchange_def Let_def)

lemma fixture_provider:
  "providers (testHandler ret) (FormValue (callback_request st ck) '':provider'') = Some (fakeProviderB ret)"
  by (cases st) (simp_all add: testHandler_def callback_request_def FormValue_def)

lemma fixture_state_param: "state_param (callback_request st ck) = st"
  by (cases st) (simp_all add: callback_request_def state_param_def)

lemma fixture_cookie:
  "Request_Cookie (callback_request st ck) OAuthStateCookie =
     (case ck of None \<Rightarrow> Inl (errorString ''http: named cookie not present'') | Some c \<Rightarrow> Inr c)"
  by (cases ck) (simp_all add: callback_request_def Request_Cookie_def)

lemma fixture_exchange:
  "Exchange (fakeProviderB ret) (FormValue (callback_request st ck) ''code'') = Inr ''some-access-token''"
  by (simp add: fakeProviderB_def)

lemma fixture_verify: "Verify (fakeProviderB ret) l c = ret"
  by (simp add: fakeProviderB_def FakeVerifier_def)

lemma fixture_decode_empty:
  "DecodeString testEnv ''eyJyZWRpcmVjdCI6IiJ9'' = Inr ''{\"redirect\":\"\"}''"
  "json_Unmarshal testEnv ''{\"redirect\":\"\"}'' = Inr \<lparr>Redirect = []\<rparr>"
  by (simp_all add: testEnv_def test_DecodeString_def test_Unmarshal_def)

lemma fixture_decode_root:
  "DecodeString testEnv ''eyJyZWRpcmVjdCI6Ii8ifQ'' = Inr ''{\"redirect\":\"/\"}''"
  "json_Unmarshal testEnv ''{\"redirect\":\"/\"}'' = Inr \<lparr>Redirect = ''/''\<rparr>"
  by (simp_all add: testEnv_def test_DecodeString_def test_Unmarshal_def)

lemma fixture_Sign: "Sign testEnv k tm t = ''header.claims.signature''"
  by (simp add: Sign_def testEnv_def Let_def)

section \<open>The verifier basket\<close>




text \<open>
  Claim C4. Let a verifier of the basket return \<open>(true, nil)\<close> and let no verifier
  before it do so (each returns \<open>false\<close> with or without an error, or an error).
  Then \<open>VerifierBasket.Verify\<close> returns \<open>(true, nil)\<close>, wherever the successful
  verifier stands and however many errors were recorded before it; the verifiers
  called are those before it and itself, none after it.
\<close>

theorem VerifierBasket_Verify_first_success:
  assumes "\<forall>u\<in>set pre. u lg cl \<noteq> (True, None)"
    and "v lg cl = (True, None)"
  shows "VerifierBasket_Verify (NewVerifierBasket (pre @ v # post)) lg cl = (True, None)
         \<and> snd (Verify_calls (NewVerifierBasket (pre @ v # post)) lg cl) = Suc (length pre)"
  using assms
  by (simp add: VerifierBasket_Verify_def Verify_calls_def NewVerifierBasket_def
      Verify_loop_first_success)

theorem VerifierBasket_Verify_first_success_witness:
  "FakeVerifier (False, Some (errorString ''first error'')) () () \<noteq> (True, None)
   \<and> FakeVerifier (True, None) () () = (True, None)
   \<and> VerifierBasket_Verify (NewVerifierBasket
        [FakeVerifier (False, Some (errorString ''first error'')), FakeVerifier (True, None),
         FakeVerifier (False, Some (errorString ''not reached''))]) () () = (True, None)
   \<and> snd (Verify_calls (NewVerifierBasket
        [FakeVerifier (False, Some (errorString ''first error'')), FakeVerifier (True, None),
         FakeVerifier (False, Some (errorString ''not reached''))]) () ()) = 2"
  using VerifierBasket_Verify_first_success
    [of "[FakeVerifier (False, Some (errorString ''first error''))]" "()" "()"
      "FakeVerifier (True, None)" "[FakeVerifier (False, Some (errorString ''not reached''))]"]
  by (simp add: FakeVerifier_def)

section \<open>The team of a request\<close>

text \<open>
  Claim C10. \<open>GetTeam\<close> returns \<open>found = true\<close> only for a request whose context holds
  all three of the team name, the team id and the admin flag. When any one of the three
  is missing it returns \<open>("", 0, false, false)\<close>, whatever the other two hold: a partly
  populated context is reported like an empty one. With all three present and of their
  types, it returns them with \<open>found = true\<close>.
\<close>

theorem GetTeam_found_only_when_all_present:
  "(\<forall>n i a. GetTeam r = Inr (n, i, a, True) \<longrightarrow>
      Context r teamNameKey \<noteq> None \<and> Context r teamIDKey \<noteq> None \<and> Context r isAdminKey \<noteq> None)
   \<and> (Context r teamNameKey = None \<or> Context r teamIDKey = None \<or> Context r isAdminKey = None \<longrightarrow>
        GetTeam r = Inr ([], 0, False, False))
   \<and> (\<forall>n i a. Context r teamNameKey = Some (iString n) \<and> Context r teamIDKey = Some (iInt i)
         \<and> Context r isAdminKey = Some (iBool a) \<longrightarrow> GetTeam r = Inr (n, i, a, True))"
  by (auto simp: GetTeam_def context_GetOk_def split: option.splits iface.splits)

theorem GetTeam_found_only_when_all_present_witness:
  "GetTeam request_with_team = Inr (''some-team'', 9, True, True)
   \<and> Context request_with_team teamNameKey \<noteq> None
   \<and> Context request_with_team teamIDKey \<noteq> None
   \<and> Context request_with_team isAdminKey \<noteq> None
   \<and> Context request_partial_team isAdminKey = None
   \<and> Context request_partial_team teamNameKey \<noteq> None
   \<and> GetTeam request_partial_team = Inr ([], 0, False, False)"
proof -
  have n: "Context request_with_team teamNameKey = Some (iString ''some-team'')"
    and i: "Context request_with_team teamIDKey = Some (iInt 9)"
    and a: "Context request_with_team isAdminKey = Some (iBool True)"
    by (simp_all add: request_with_team_def)
  have full: "GetTeam request_with_team = Inr (''some-team'', 9, True, True)"
    using GetTeam_found_only_when_all_present [of request_with_team] n i a by blast
  then have present: "Context request_with_team teamNameKey \<noteq> None
      \<and> Context request_with_team teamIDKey \<noteq> None
      \<and> Context request_with_team isAdminKey \<noteq> None"
    using GetTeam_found_only_when_all_present [of request_with_team] by blast
  have missing: "Context request_partial_team isAdminKey = None"
    and "Context request_partial_team teamNameKey \<noteq> None"
    by (simp_all add: request_partial_team_def)
  moreover from missing have "GetTeam request_partial_team = Inr ([], 0, False, False)"
    using GetTeam_found_only_when_all_present [of request_partial_team] by blast
  ultimately show ?thesis using full present by blast
qed

section \<open>The key function\<close>

text \<open>
  Claim C6. For a token whose signing method is not of the RSA type, \<open>keyFunc\<close> returns
  an error (naming the token's \<open>alg\<close> header) and never the public key; so the parse
  step that asks the key function for the key ends with an error and a token that is
  not valid, whatever the remaining checks would say.
\<close>

theorem keyFunc_rejects_non_RSA:
  assumes "\<forall>n. Method token \<noteq> SigningMethodRSA n"
  shows "keyFunc key token =
           Inl (errorString (''Unexpected signing method: '' @ Sprintf_v (Header_alg token)))
         \<and> (\<forall>pub. keyFunc key token \<noteq> Inr pub)
         \<and> (\<forall>check. snd (jwt_Parse_lookup (keyFunc key) check token) \<noteq> None
               \<and> \<not> Valid (fst (jwt_Parse_lookup (keyFunc key) check token)))"
proof -
  have k: "keyFunc key t =
           Inl (errorString (''Unexpected signing method: '' @ Sprintf_v (Header_alg t)))"
    if "Method t = Method token" for t
    using assms that by (cases "Method token") (simp_all add: keyFunc_def)
  have "keyFunc key (token\<lparr>Valid := False\<rparr>) =
           Inl (errorString (''Unexpected signing method: '' @ Sprintf_v (Header_alg (token\<lparr>Valid := False\<rparr>))))"
    by (rule k) simp
  then show ?thesis using k[of token] by (simp add: jwt_Parse_lookup_def)
qed

theorem keyFunc_rejects_non_RSA_witness:
  "keyFunc signingKey hs256_token = Inl (errorString ''Unexpected signing method: HS256'')
   \<and> snd (jwt_Parse_lookup (keyFunc signingKey) (\<lambda>t k. (t\<lparr>Valid := True\<rparr>, None)) hs256_token) \<noteq> None
   \<and> \<not> Valid (fst (jwt_Parse_lookup (keyFunc signingKey) (\<lambda>t k. (t\<lparr>Valid := True\<rparr>, None)) hs256_token))"
proof -
  have "\<forall>n. Method hs256_token \<noteq> SigningMethodRSA n" by (simp add: hs256_token_def)
  from keyFunc_rejects_non_RSA [OF this, of signingKey]
  show ?thesis by (simp add: hs256_token_def Header_alg_def)
qed

section \<open>The begin handler\<close>

text \<open>
  Claim C8. For a begin request that names a known provider, with \<open>oauthState\<close> the
  JSON that \<open>json.Marshal\<close> returns for the \<open>OAuthState\<close> of the request's \<open>redirect\<close>
  parameter: the response has status 307; it sets one cookie, the state cookie, whose
  value is the unpadded base64url encoding of \<open>oauthState\<close>; and it redirects to the
  URL the provider builds from that very string as the \<open>state\<close> parameter.
\<close>

theorem OAuthBeginHandler_state_cookie_is_url_state:
  assumes "providers handler (FormValue r '':provider'') = Some provider"
    and "json_Marshal env \<lparr>Redirect = FormValue r ''redirect''\<rparr> = Inr oauthState"
  shows "Code (OAuthBeginHandler_ServeHTTP env handler NewRecorder r) = Some 307
         \<and> SetCookies (OAuthBeginHandler_ServeHTTP env handler NewRecorder r) =
             [\<lparr>Name = OAuthStateCookie, Value = RawURLEncoding_EncodeToString oauthState,
               Path = ''/'', Expires = time_Now env + CookieAge\<rparr>]
         \<and> Location (OAuthBeginHandler_ServeHTTP env handler NewRecorder r) =
             Some (AuthCodeURL provider (RawURLEncoding_EncodeToString oauthState))"
  using assms
  by (simp add: OAuthBeginHandler_ServeHTTP_def writer_defs status_defs Let_def)

theorem OAuthBeginHandler_state_cookie_is_url_state_witness:
  "Code (OAuthBeginHandler_ServeHTTP testEnv (testHandler (True, None)) NewRecorder begin_request) = Some 307
   \<and> map Value (SetCookies (OAuthBeginHandler_ServeHTTP testEnv (testHandler (True, None)) NewRecorder begin_request))
       = [''eyJyZWRpcmVjdCI6Ii8ifQ'']
   \<and> Location (OAuthBeginHandler_ServeHTTP testEnv (testHandler (True, None)) NewRecorder begin_request)
       = Some ''https://b.example.com/authorize?state=eyJyZWRpcmVjdCI6Ii8ifQ''"
proof -
  have p: "providers (testHandler (True, None)) (FormValue begin_request '':provider'')
             = Some (fakeProviderB (True, None))"
    by (simp add: testHandler_def begin_request_def FormValue_def)
  have m: "json_Marshal testEnv \<lparr>Redirect = FormValue begin_request ''redirect''\<rparr>
             = Inr ''{\"redirect\":\"/\"}''"
    by (simp add: testEnv_def test_Marshal_def begin_request_def FormValue_def)
  from OAuthBeginHandler_state_cookie_is_url_state [OF p m]
  show ?thesis by (simp add: fakeProviderB_def encode6_def encodeURL_def)
qed

section \<open>The authorization middleware\<close>

text \<open>
  Claim C1. A request whose propagated authenticated flag is false is answered by the
  rejector's \<open>Unauthorized\<close> callback, whatever team claim its context holds: 401 with
  the body \<open>nope\<close> under the callbacks of the test. For an authenticated request whose
  context gives \<open>(teamName, teamID, isAdmin, found)\<close>: when no team claim was found and
  the requested \<open>:team_name\<close> is the default team name, the wrapped handler runs; else
  when \<open>teamName\<close> is the requested team, the wrapped handler runs; in every other case
  the \<open>Forbidden\<close> callback answers. With the handler and the callbacks of the test the
  allowed request gets 200 and \<open>simple\<close> followed by its own body, the other one 403.
\<close>

theorem CheckAuthorizationHandler_decision:
  "(\<not> IsAuthenticated r \<longrightarrow>
      CheckAuthorizationHandler handler rejector w r = Inr (Unauthorized rejector w r)
      \<and> CheckAuthorizationHandler simpleHandler fakeRejector NewRecorder r =
          Inr \<lparr>Code = Some 401, SetCookies = [], Location = None, Written = ''nope'' @ [CHR 0x0A]\<rparr>)
   \<and> (IsAuthenticated r \<and> GetTeam r = Inr (teamName, teamID, isAdmin, found) \<longrightarrow>
        CheckAuthorizationHandler handler rejector w r =
          Inr (if \<not> found \<and> FormValue r '':team_name'' = DefaultTeamName then handler w r
               else if teamName = FormValue r '':team_name'' then handler w r
               else Forbidden rejector w r)
        \<and> CheckAuthorizationHandler simpleHandler fakeRejector NewRecorder r =
          Inr (if \<not> found \<and> FormValue r '':team_name'' = DefaultTeamName
                  \<or> teamName = FormValue r '':team_name''
               then \<lparr>Code = Some 200, SetCookies = [], Location = None, Written = ''simple '' @ Body r\<rparr>
               else \<lparr>Code = Some 403, SetCookies = [], Location = None, Written = ''nope'' @ [CHR 0x0A]\<rparr>))"
  by (simp add: CheckAuthorizationHandler_def simpleHandler_def fakeRejector_def writer_defs
      status_defs Let_def)

theorem CheckAuthorizationHandler_decision_witness:
  "CheckAuthorizationHandler simpleHandler fakeRejector NewRecorder
      (team_request ''some-team'' True (Some (''some-team'', 1, True))) =
     Inr \<lparr>Code = Some 200, SetCookies = [], Location = None, Written = ''simple hello''\<rparr>
   \<and> CheckAuthorizationHandler simpleHandler fakeRejector NewRecorder
      (team_request ''some-team'' True (Some (''another-team'', 1, True))) =
     Inr \<lparr>Code = Some 403, SetCookies = [], Location = None, Written = ''nope'' @ [CHR 0x0A]\<rparr>
   \<and> CheckAuthorizationHandler simpleHandler fakeRejector NewRecorder
      (team_request ''main'' True None) =
     Inr \<lparr>Code = Some 200, SetCookies = [], Location = None, Written = ''simple hello''\<rparr>
   \<and> CheckAuthorizationHandler simpleHandler fakeRejector NewRecorder
      (team_request ''some-team'' False (Some (''some-team'', 1, True))) =
     Inr \<lparr>Code = Some 401, SetCookies = [], Location = None, Written = ''nope'' @ [CHR 0x0A]\<rparr>"
proof -
  have a: "IsAuthenticated (team_request q b c) = b" for q b c
    by (cases c) (auto simp: team_request_def IsAuthenticated_def)
  have g: "GetTeam (team_request q b (Some (n, i, ad))) = Inr (n, i, ad, True)" for q b n i ad
    by (simp add: team_request_def GetTeam_def context_GetOk_def)
  have g0: "GetTeam (team_request q b None) = Inr ([], 0, False, False)" for q b
    by (simp add: team_request_def GetTeam_def context_GetOk_def)
  have f: "FormValue (team_request q b c) '':team_name'' = q" for q b c
    by (simp add: team_request_def FormValue_def)
  have b: "Body (team_request q b c) = ''hello''" for q b c
    by (simp add: team_request_def)
  show ?thesis
    using CheckAuthorizationHandler_decision
        [of "team_request ''some-team'' True (Some (''some-team'', 1, True))"
          simpleHandler fakeRejector NewRecorder "''some-team''" 1 True True]
      CheckAuthorizationHandler_decision
        [of "team_request ''some-team'' True (Some (''another-team'', 1, True))"
          simpleHandler fakeRejector NewRecorder "''another-team''" 1 True True]
      CheckAuthorizationHandler_decision
        [of "team_request ''main'' True None"
          simpleHandler fakeRejector NewRecorder "[]" 0 False False]
      CheckAuthorizationHandler_decision
        [of "team_request ''some-team'' False (Some (''some-team'', 1, True))"
          simpleHandler fakeRejector NewRecorder]
    by (simp add: a g g0 f b DefaultTeamName_def simpleHandler_def fakeRejector_def
        writer_defs status_defs)
qed

section \<open>The callback handler\<close>

text \<open>
  Claim C2. For a callback request to a known provider whose \<open>state\<close> parameter and
  state cookie are not both present and equal (one of them missing, or two different
  values), the response is 401, no cookie is set, and \<open>Exchange\<close> is not called.
\<close>

theorem callback_rejects_state_mismatch:
  assumes "providers handler (FormValue r '':provider'') = Some provider"
    and "\<forall>state. \<not> (state_param r = Some state \<and> Request_Cookie r OAuthStateCookie = Inr state)"
  shows "Code (fst (OAuthCallbackHandler_ServeHTTP env handler NewRecorder r)) = Some 401
         \<and> SetCookies (fst (OAuthCallbackHandler_ServeHTTP env handler NewRecorder r)) = []
         \<and> ExchangeCallCount (snd (OAuthCallbackHandler_ServeHTTP env handler NewRecorder r)) = 0"
proof -
  have "OAuthCallbackHandler_ServeHTTP env handler NewRecorder r =
          (WriteHeader StatusUnauthorized NewRecorder, [])"
    using assms
    by (auto simp: OAuthCallbackHandler_ServeHTTP_def split: option.splits sum.splits)
  then show ?thesis by (simp add: writer_defs status_defs ExchangeCallCount_def)
qed

theorem callback_rejects_state_mismatch_witness:
  "Code (fst (OAuthCallbackHandler_ServeHTTP testEnv (testHandler (True, None)) NewRecorder
      (callback_request None None))) = Some 401
   \<and> SetCookies (fst (OAuthCallbackHandler_ServeHTTP testEnv (testHandler (True, None)) NewRecorder
      (callback_request None None))) = []
   \<and> ExchangeCallCount (snd (OAuthCallbackHandler_ServeHTTP testEnv (testHandler (True, None)) NewRecorder
      (callback_request None None))) = 0
   \<and> Code (fst (OAuthCallbackHandler_ServeHTTP testEnv (testHandler (True, None)) NewRecorder
      (callback_request (Some ''eyJyZWRpcmVjdCI6IiJ9'') None))) = Some 401
   \<and> ExchangeCallCount (snd (OAuthCallbackHandler_ServeHTTP testEnv (testHandler (True, None)) NewRecorder
      (callback_request (Some ''eyJyZWRpcmVjdCI6IiJ9'') None))) = 0
   \<and> Code (fst (OAuthCallbackHandler_ServeHTTP testEnv (testHandler (True, None)) NewRecorder
      (callback_request (Some ''bogus-state'') (Some ''eyJyZWRpcmVjdCI6IiJ9'')))) = Some 401
   \<and> ExchangeCallCount (snd (OAuthCallbackHandler_ServeHTTP testEnv (testHandler (True, None)) NewRecorder
      (callback_request (Some ''bogus-state'') (Some ''eyJyZWRpcmVjdCI6IiJ9'')))) = 0"
proof -
  have 1: "\<forall>state. \<not> (state_param (callback_request None None) = Some state
      \<and> Request_Cookie (callback_request None None) OAuthStateCookie = Inr state)"
    by (simp add: fixture_state_param)
  have 2: "\<forall>state. \<not> (state_param (callback_request (Some ''eyJyZWRpcmVjdCI6IiJ9'') None) = Some state
      \<and> Request_Cookie (callback_request (Some ''eyJyZWRpcmVjdCI6IiJ9'') None) OAuthStateCookie = Inr state)"
    by (simp add: fixture_cookie)
  have 3: "\<forall>state. \<not> (state_param (callback_request (Some ''bogus-state'') (Some ''eyJyZWRpcmVjdCI6IiJ9'')) = Some state
      \<and> Request_Cookie (callback_request (Some ''bogus-state'') (Some ''eyJyZWRpcmVjdCI6IiJ9'')) OAuthStateCookie = Inr state)"
    by (simp add: fixture_cookie fixture_state_param)
  show ?thesis
    using callback_rejects_state_mismatch [OF fixture_provider 1, of testEnv "(True, None)"]
      callback_rejects_state_mismatch [OF fixture_provider 2, of testEnv "(True, None)"]
      callback_rejects_state_mismatch [OF fixture_provider 3, of testEnv "(True, None)"]
    by simp
qed

text \<open>
  Claim C7. For a callback request that reaches the identity check (known provider,
  matching state that decodes and parses, successful exchange): when \<open>Verify\<close> returns
  \<open>(false, nil)\<close> the response is 401, when it returns \<open>(false, err)\<close> with an error
  the response is 500, and neither response sets a cookie.
\<close>

theorem callback_verify_failure:
  assumes "providers handler (FormValue r '':provider'') = Some provider"
    and "state_param r = Some state"
    and "Request_Cookie r OAuthStateCookie = Inr state"
    and "DecodeString env state = Inr stateJSON"
    and "json_Unmarshal env stateJSON = Inr oauthState"
    and "Exchange provider (FormValue r ''code'') = Inr token"
  shows "(Verify provider (logger handler) (Client provider token) = (False, None) \<longrightarrow>
            Code (fst (OAuthCallbackHandler_ServeHTTP env handler NewRecorder r)) = Some 401
            \<and> SetCookies (fst (OAuthCallbackHandler_ServeHTTP env handler NewRecorder r)) = [])
         \<and> (\<forall>err. Verify provider (logger handler) (Client provider token) = (False, Some err) \<longrightarrow>
            Code (fst (OAuthCallbackHandler_ServeHTTP env handler NewRecorder r)) = Some 500
            \<and> SetCookies (fst (OAuthCallbackHandler_ServeHTTP env handler NewRecorder r)) = [])"
  using callback_exchange_not_verified [OF assms(6), of handler _ env oauthState NewRecorder]
  by (simp add: callback_state_accepted [OF assms(1-5)] writer_defs status_defs)

theorem callback_verify_failure_witness:
  "Code (fst (OAuthCallbackHandler_ServeHTTP testEnv (testHandler (False, None)) NewRecorder
      (callback_request (Some ''eyJyZWRpcmVjdCI6IiJ9'') (Some ''eyJyZWRpcmVjdCI6IiJ9'')))) = Some 401
   \<and> SetCookies (fst (OAuthCallbackHandler_ServeHTTP testEnv (testHandler (False, None)) NewRecorder
      (callback_request (Some ''eyJyZWRpcmVjdCI6IiJ9'') (Some ''eyJyZWRpcmVjdCI6IiJ9'')))) = []
   \<and> Code (fst (OAuthCallbackHandler_ServeHTTP testEnv (testHandler (False, Some (errorString ''nope''))) NewRecorder
      (callback_request (Some ''eyJyZWRpcmVjdCI6IiJ9'') (Some ''eyJyZWRpcmVjdCI6IiJ9'')))) = Some 500
   \<and> SetCookies (fst (OAuthCallbackHandler_ServeHTTP testEnv (testHandler (False, Some (errorString ''nope''))) NewRecorder
      (callback_request (Some ''eyJyZWRpcmVjdCI6IiJ9'') (Some ''eyJyZWRpcmVjdCI6IiJ9'')))) = []"
proof -
  have s: "state_param (callback_request (Some ''eyJyZWRpcmVjdCI6IiJ9'') (Some ''eyJyZWRpcmVjdCI6IiJ9''))
             = Some ''eyJyZWRpcmVjdCI6IiJ9''"
    by (simp add: fixture_state_param)
  have c: "Request_Cookie (callback_request (Some ''eyJyZWRpcmVjdCI6IiJ9'') (Some ''eyJyZWRpcmVjdCI6IiJ9'')) OAuthStateCookie
             = Inr ''eyJyZWRpcmVjdCI6IiJ9''"
    by (simp add: fixture_cookie)
  show ?thesis
    using callback_verify_failure [OF fixture_provider s c fixture_decode_empty fixture_exchange,
        of "(False, None)"]
      callback_verify_failure [OF fixture_provider s c fixture_decode_empty fixture_exchange,
        of "(False, Some (errorString ''nope''))"]
    by (simp add: fixture_verify)
qed

text \<open>
  The cookie of the success path in the model of the callback handler: one cookie
  named \<open>ATC-Authorization\<close>, whose value is \<open>Bearer\<close>, a space and the signed token,
  expiring at now plus the cookie age; the token that is signed carries that expiry as
  its \<open>exp\<close> claim and the signing method of the package. Parsing the token and
  checking its signature are the library's and are not part of the model.
\<close>

lemma callback_issue_cookie:
  assumes "providers handler (FormValue r '':provider'') = Some provider"
    and "state_param r = Some state"
    and "Request_Cookie r OAuthStateCookie = Inr state"
    and "DecodeString env state = Inr stateJSON"
    and "json_Unmarshal env stateJSON = Inr oauthState"
    and "Exchange provider (FormValue r ''code'') = Inr token"
    and "Verify provider (logger handler) (Client provider token) = (True, None)"
  shows "SetCookies (fst (OAuthCallbackHandler_ServeHTTP env handler NewRecorder r)) =
           [\<lparr>Name = ''ATC-Authorization'',
             Value = ''Bearer '' @ Sign env (privateKey handler) (team handler) (time_Now env + CookieAge),
             Path = ''/'', Expires = time_Now env + CookieAge\<rparr>]
         \<and> Sign env (privateKey handler) (team handler) (time_Now env + CookieAge) \<noteq> []
         \<and> Sign env (privateKey handler) (team handler) (time_Now env + CookieAge) =
             SigningString env (SessionToken (team handler) (time_Now env + CookieAge)) @ ''.'' @
             method_Sign env (SigningMethodRSA ''RS256'')
               (SigningString env (SessionToken (team handler) (time_Now env + CookieAge)))
               (privateKey handler)
         \<and> Claims (SessionToken (team handler) (time_Now env + CookieAge)) ''exp'' =
             Some (iInt (Unix (time_Now env + CookieAge)))
         \<and> keyFunc (privateKey handler) (SessionToken (team handler) (time_Now env + CookieAge)) =
             Inr (Public (privateKey handler))"
proof -
  have "fst (OAuthCallbackHandler_ServeHTTP env handler NewRecorder r) =
          callback_issue env handler oauthState NewRecorder"
    by (simp add: callback_state_accepted [OF assms(1-5)] callback_exchange_verified [OF assms(6,7)])
  then show ?thesis
    by (simp add: callback_issue_def Sign_def SessionToken_def jwt_New_def
        auth_SigningMethod_def SigningMethodRS256_def keyFunc_def writer_defs CookieName_def Let_def)
qed

text \<open>
  Claim C9. For a callback request that completes verification: with a non-empty
  redirect path in the decoded state the response is a redirect to that path; with an
  empty one the response has status 200, no \<open>Location\<close>, and its body is the token
  string, that is the value of the session cookie (\<open>Bearer\<close>, a space and the signed
  token), followed by a newline.
\<close>

theorem callback_redirect_or_token:
  assumes "providers handler (FormValue r '':provider'') = Some provider"
    and "state_param r = Some state"
    and "Request_Cookie r OAuthStateCookie = Inr state"
    and "DecodeString env state = Inr stateJSON"
    and "json_Unmarshal env stateJSON = Inr oauthState"
    and "Exchange provider (FormValue r ''code'') = Inr token"
    and "Verify provider (logger handler) (Client provider token) = (True, None)"
  shows "(Redirect oauthState \<noteq> [] \<longrightarrow>
            Location (fst (OAuthCallbackHandler_ServeHTTP env handler NewRecorder r)) = Some (Redirect oauthState)
            \<and> Code (fst (OAuthCallbackHandler_ServeHTTP env handler NewRecorder r)) = Some 307)
         \<and> (Redirect oauthState = [] \<longrightarrow>
            Written (fst (OAuthCallbackHandler_ServeHTTP env handler NewRecorder r)) =
              ''Bearer '' @ Sign env (privateKey handler) (team handler) (time_Now env + CookieAge) @ [CHR 0x0A]
            \<and> Location (fst (OAuthCallbackHandler_ServeHTTP env handler NewRecorder r)) = None
            \<and> Code (fst (OAuthCallbackHandler_ServeHTTP env handler NewRecorder r)) = Some 200)"
proof -
  have "fst (OAuthCallbackHandler_ServeHTTP env handler NewRecorder r) =
          callback_issue env handler oauthState NewRecorder"
    by (simp add: callback_state_accepted [OF assms(1-5)] callback_exchange_verified [OF assms(6,7)])
  then show ?thesis
    by (simp add: callback_issue_def writer_defs status_defs Let_def)
qed

theorem callback_redirect_or_token_witness:
  "Location (fst (OAuthCallbackHandler_ServeHTTP testEnv (testHandler (True, None)) NewRecorder
      (callback_request (Some ''eyJyZWRpcmVjdCI6Ii8ifQ'') (Some ''eyJyZWRpcmVjdCI6Ii8ifQ'')))) = Some ''/''
   \<and> Code (fst (OAuthCallbackHandler_ServeHTTP testEnv (testHandler (True, None)) NewRecorder
      (callback_request (Some ''eyJyZWRpcmVjdCI6Ii8ifQ'') (Some ''eyJyZWRpcmVjdCI6Ii8ifQ'')))) = Some 307
   \<and> Written (fst (OAuthCallbackHandler_ServeHTTP testEnv (testHandler (True, None)) NewRecorder
      (callback_request (Some ''eyJyZWRpcmVjdCI6IiJ9'') (Some ''eyJyZWRpcmVjdCI6IiJ9'')))) =
       ''Bearer header.claims.signature'' @ [CHR 0x0A]
   \<and> Location (fst (OAuthCallbackHandler_ServeHTTP testEnv (testHandler (True, None)) NewRecorder
      (callback_request (Some ''eyJyZWRpcmVjdCI6IiJ9'') (Some ''eyJyZWRpcmVjdCI6IiJ9'')))) = None
   \<and> Code (fst (OAuthCallbackHandler_ServeHTTP testEnv (testHandler (True, None)) NewRecorder
      (callback_request (Some ''eyJyZWRpcmVjdCI6IiJ9'') (Some ''eyJyZWRpcmVjdCI6IiJ9'')))) = Some 200"
proof -
  have s: "state_param (callback_request (Some st) ck) = Some st" for st ck
    by (simp add: fixture_state_param)
  have c: "Request_Cookie (callback_request st (Some ck)) OAuthStateCookie = Inr ck" for st ck
    by (simp add: fixture_cookie)
  show ?thesis
    using callback_redirect_or_token [OF fixture_provider s c fixture_decode_root fixture_exchange fixture_verify]
      callback_redirect_or_token [OF fixture_provider s c fixture_decode_empty fixture_exchange fixture_verify]
    by (simp add: fixture_Sign)
qed

end
